theory Spec2Isabelle
  imports Main "HOL-Library.Sublist"
begin

section \<open>Strings and arrays as the script uses them\<close>

text \<open>
  The script works on JavaScript strings with \<open>startsWith\<close>, \<open>endsWith\<close>,
  \<open>substring\<close>, \<open>split\<close>, \<open>join\<close>, \<open>replace\<close> and on arrays with \<open>filter\<close>,
  \<open>pop\<close> and \<open>indexOf\<close>. A string is a list of characters; all of these operations
  act on the sequence of code units and are independent of the character set.
\<close>

definition startsWith :: "string \<Rightarrow> string \<Rightarrow> bool" where
  "startsWith s p = prefix p s"

definition endsWith :: "string \<Rightarrow> string \<Rightarrow> bool" where
  "endsWith s p = suffix p s"

text \<open>\<open>s.substring(n)\<close> with \<open>n\<close> a literal: the string from position \<open>n\<close> on.\<close>

definition substring :: "string \<Rightarrow> nat \<Rightarrow> string" where
  "substring s n = drop n s"

text \<open>\<open>s.replace(/^p/, '')\<close> for a literal \<open>p\<close>: one leading \<open>p\<close> is removed.\<close>

definition replace_leading :: "string \<Rightarrow> string \<Rightarrow> string" where
  "replace_leading p s = (if prefix p s then drop (length p) s else s)"

text \<open>\<open>s.replace(/\\/g, '/')\<close>: every backslash becomes a slash.\<close>

definition replace_backslashes :: "string \<Rightarrow> string" where
  "replace_backslashes s = map (\<lambda>c. if c = CHR 0x5C then CHR ''/'' else c) s"


text \<open>\<open>s.split('/')\<close>: the pieces between slashes; the empty string gives one empty piece.\<close>

fun split_slash :: "string \<Rightarrow> string list" where
  "split_slash [] = [[]]"
| "split_slash (c # cs) =
     (if c = CHR ''/'' then [] # split_slash cs
      else (case split_slash cs of
              [] \<Rightarrow> [[c]]
            | p # ps \<Rightarrow> (c # p) # ps))"


text \<open>\<open>parts.filter(function(p) { return p && p !== ''; })\<close>: the non-empty pieces.\<close>

definition filter_nonempty :: "string list \<Rightarrow> string list" where
  "filter_nonempty ps = filter (\<lambda>p. p \<noteq> []) ps"

text \<open>
  \<open>if (parts.length > 0 && parts[parts.length - 1].endsWith('.html')) parts.pop();\<close>
\<close>

definition pop_html :: "string list \<Rightarrow> string list" where
  "pop_html ps = (if ps \<noteq> [] \<and> endsWith (last ps) ''.html'' then butlast ps else ps)"

text \<open>\<open>array.indexOf(x)\<close>: the first index of \<open>x\<close>, or \<open>-1\<close>.\<close>

fun indexOf :: "string list \<Rightarrow> string \<Rightarrow> int" where
  "indexOf [] x = -1"
| "indexOf (y # ys) x =
     (if y = x then 0 else (let r = indexOf ys x in if r = -1 then -1 else r + 1))"

section \<open>The browser environment\<close>

text \<open>
  What the script reads from the browser: \<open>window.location.href\<close>,
  \<open>window.location.pathname\<close>, and the two built-ins it calls on the address,
  \<open>decodeURIComponent\<close> and \<open>new URL(href).pathname\<close>. Both built-ins can throw
  (\<open>URIError\<close>, \<open>TypeError\<close>); that is the value \<open>None\<close>, and the script's
  \<open>try\<close>/\<open>catch\<close> blocks are the case distinctions on it.
\<close>

record browser =
  href :: string
  pathname :: string
  decodeURIComponent :: "string \<Rightarrow> string option"
  URL_pathname :: "string \<Rightarrow> string option"

record file_location =
  fullPath :: string
  parts :: "string list"
  isFileProtocol :: bool

section \<open>universal-image-loader.js\<close>

subsection \<open>getFileLocation\<close>

definition getFileLocation_file :: "browser \<Rightarrow> file_location option" where
  "getFileLocation_file b =
     (if startsWith (href b) ''file://'' then
        (case decodeURIComponent b (replace_leading ''file:///'' (href b)) of
           None \<Rightarrow> None
         | Some decoded \<Rightarrow>
             (let filePath = replace_backslashes decoded;
                  ps = pop_html (split_slash filePath)
              in Some \<lparr>fullPath = filePath, parts = filter_nonempty ps,
                       isFileProtocol = True\<rparr>))
      else None)"

definition getFileLocation_http :: "browser \<Rightarrow> file_location" where
  "getFileLocation_http b =
     (case URL_pathname b (href b) of
        Some path \<Rightarrow>
          \<lparr>fullPath = path, parts = pop_html (filter_nonempty (split_slash path)),
           isFileProtocol = False\<rparr>
      | None \<Rightarrow>
          \<lparr>fullPath = pathname b,
           parts = pop_html (filter_nonempty (split_slash (pathname b))),
           isFileProtocol = False\<rparr>)"

text \<open>
  The \<open>file://\<close> branch returns from inside its \<open>try\<close>; when the address has another
  scheme, or decoding throws, control reaches the \<open>http\<close>/\<open>https\<close> part.
\<close>

definition getFileLocation :: "browser \<Rightarrow> file_location" where
  "getFileLocation b =
     (case getFileLocation_file b of
        Some loc \<Rightarrow> loc
      | None \<Rightarrow> getFileLocation_http b)"

subsection \<open>fixImagePath\<close>

text \<open>
  The loop over \<open>dirParts\<close> that finds the directory indices: \<open>i\<close> is the loop index,
  \<open>ei\<close> and \<open>gi\<close> are \<open>exploreIndex\<close> and \<open>gameIndex\<close>, both \<open>-1\<close> at the start.
\<close>

fun find_indices :: "string list \<Rightarrow> int \<Rightarrow> int \<Rightarrow> int \<Rightarrow> int \<times> int" where
  "find_indices [] i ei gi = (ei, gi)"
| "find_indices (d # ds) i ei gi =
     find_indices ds (i + 1)
       (if d = ''explore'' \<and> ei = -1 then i else ei)
       (if d = ''game'' \<and> gi = -1 then i else gi)"

definition exploreIndex :: "string list \<Rightarrow> int" where
  "exploreIndex dirParts = fst (find_indices dirParts 0 (-1) (-1))"

definition gameIndex :: "string list \<Rightarrow> int" where
  "gameIndex dirParts = snd (find_indices dirParts 0 (-1) (-1))"

definition isInExplore :: "string list \<Rightarrow> bool" where
  "isInExplore dirParts = (exploreIndex dirParts \<ge> 0)"

definition isInExploreGame :: "string list \<Rightarrow> bool" where
  "isInExploreGame dirParts =
     (isInExplore dirParts \<and> gameIndex dirParts > exploreIndex dirParts)"

definition isInRootGame :: "string list \<Rightarrow> bool" where
  "isInRootGame dirParts = (gameIndex dirParts \<ge> 0 \<and> \<not> isInExplore dirParts)"

definition fixImagePath :: "browser \<Rightarrow> string \<Rightarrow> string" where
  "fixImagePath b originalPath =
     (if startsWith originalPath ''http://'' \<or> startsWith originalPath ''https://''
      then originalPath
      else
        let dirParts = parts (getFileLocation b) in
        if startsWith originalPath ''/'' then
          (let path = substring originalPath 1 in
           if isInExploreGame dirParts then
             ''../../images/'' @ replace_leading ''images/'' path
           else if isInExplore dirParts then
             ''images/'' @ replace_leading ''images/'' path
           else if isInRootGame dirParts then
             ''../explore/images/'' @ replace_leading ''images/'' path
           else
             ''explore/images/'' @ replace_leading ''images/'' path)
        else if startsWith originalPath ''../'' then originalPath
        else
          (let path = (if startsWith originalPath ''./'' then substring originalPath 2
                       else originalPath) in
           if \<not> startsWith path ''../'' \<and> \<not> startsWith path ''images/'' then
             (if isInExplore dirParts \<and> \<not> isInExploreGame dirParts then
                ''images/'' @ path
              else if isInExploreGame dirParts then
                ''../../images/'' @ path
              else path)
           else path))"

subsection \<open>loadAllImages\<close>

text \<open>
  An element of the document, with what the script reads and writes of it: the element's
  local name (\<open>img\<close> for an image),
  the attributes \<open>data-load\<close> and \<open>data-loaded\<close> (\<open>None\<close> when the attribute is absent;
  \<open>img.dataset.loaded\<close> reads \<open>data-loaded\<close>), the \<open>src\<close> the script assigns, the three
  inline styles (the empty string when unset) and the two event handlers.
\<close>

text \<open>
  The \<open>onload\<close> closure captures only the counter \<open>loadedCount\<close>, which is never read.
  It runs after a successful load and is recorded here as installed.
\<close>

datatype load_handler = LoadHandler

text \<open>The \<open>onerror\<close> closure captures \<open>dataLoadPath\<close> and \<open>fixedPath\<close>.\<close>

datatype error_handler = ErrorHandler string string

record element =
  localName :: string
  data_load :: "string option"
  data_loaded :: "string option"
  src :: "string option"
  style_display :: string
  style_visibility :: string
  style_opacity :: string
  onload :: "load_handler option"
  onerror :: "error_handler option"

text \<open>The selector \<open>img[data-load]\<close>: an \<open>img\<close> element that has the attribute.\<close>

definition matches_img_data_load :: "element \<Rightarrow> bool" where
  "matches_img_data_load e = (localName e = ''img'' \<and> data_load e \<noteq> None)"

text \<open>
  The body of the \<open>forEach\<close> callback. \<open>getAttribute\<close> gives \<open>null\<close> for a missing
  attribute, and \<open>!dataLoadPath\<close> holds for \<open>null\<close> and for the empty string.
\<close>

definition loadImage :: "browser \<Rightarrow> element \<Rightarrow> element" where
  "loadImage b img =
     (if data_loaded img = Some ''true'' then img
      else
        (case data_load img of
           None \<Rightarrow> img
         | Some dataLoadPath \<Rightarrow>
             if dataLoadPath = [] then img
             else
               (let fixedPath = fixImagePath b dataLoadPath in
                img\<lparr>style_display := ''block'',
                    style_visibility := ''visible'',
                    style_opacity := ''1'',
                    src := Some fixedPath,
                    data_loaded := Some ''true'',
                    onload := Some LoadHandler,
                    onerror := Some (ErrorHandler dataLoadPath fixedPath)\<rparr>)))"

text \<open>
  The counters \<open>loadedCount\<close> and \<open>totalCount\<close> of \<open>loadAllImages\<close> are written and
  never read, and the function returns nothing; they are left out.
  The document is the list of its elements in document order. The script changes the
  selected elements in place, so a run gives the document with each selected element
  replaced by what the callback made of it; the others are not touched.
\<close>

definition loadAllImages :: "browser \<Rightarrow> element list \<Rightarrow> element list" where
  "loadAllImages b document =
     map (\<lambda>e. if matches_img_data_load e then loadImage b e else e) document"

text \<open>
  The \<open>onerror\<close> handler, run on the element \<open>this\<close>. It returns the element and its
  local array \<open>triedPaths\<close>, which starts as \<open>[fixedPath]\<close> and receives every source
  the handler assigns.
\<close>

definition run_onerror :: "error_handler \<Rightarrow> element \<Rightarrow> element \<times> string list" where
  "run_onerror h this =
     (case h of ErrorHandler dataLoadPath fixedPath \<Rightarrow>
        (let originalPath = dataLoadPath;
             triedPaths = [fixedPath]
         in if originalPath \<noteq> fixedPath \<and> \<not> startsWith originalPath ''http'' then
              (this\<lparr>src := Some originalPath\<rparr>, triedPaths @ [originalPath])
            else if startsWith originalPath ''/images/'' then
              (let altPath = ''explore'' @ originalPath in
               if indexOf triedPaths altPath = -1 then
                 (this\<lparr>src := Some altPath\<rparr>, triedPaths @ [altPath])
               else (this, triedPaths))
            else (this, triedPaths)))"

section \<open>The second loader: part 000 of the unnamed sources\<close>



section \<open>Sample pages\<close>

text \<open>
  Four pages served over http, one for each directory the site has, with a browser whose
  \<open>URL\<close> parser gives back the page's path.
\<close>

definition http_page :: "string \<Rightarrow> browser" where
  "http_page p =
     \<lparr>href = ''http://site'' @ p, pathname = p,
      decodeURIComponent = (\<lambda>s. Some s), URL_pathname = (\<lambda>h. Some p)\<rparr>"

definition root_page :: browser where
  "root_page = http_page ''/index.html''"

definition explore_page :: browser where
  "explore_page = http_page ''/explore/index.html''"

definition explore_game_page :: browser where
  "explore_game_page = http_page ''/explore/game/play.html''"

definition root_game_page :: browser where
  "root_game_page = http_page ''/game/play.html''"

definition game_explore_page :: browser where
  "game_explore_page = http_page ''/game/explore/index.html''"

text \<open>A fresh element with the given tag and \<open>data-load\<close> attribute.\<close>

definition placeholder :: "string \<Rightarrow> string \<Rightarrow> element" where
  "placeholder tag p =
     \<lparr>localName = tag, data_load = Some p, data_loaded = None, src = None,
      style_display = ''none'', style_visibility = [], style_opacity = [],
      onload = None, onerror = None\<rparr>"

section \<open>Notation for the order of segments\<close>

text \<open>
  The position of the first occurrence of a name in a segment list is the number of
  segments before it: \<open>first_occ s ps\<close> abbreviates the length of the longest initial
  part of \<open>ps\<close> without \<open>s\<close>.
\<close>

abbreviation first_occ :: "string \<Rightarrow> string list \<Rightarrow> nat" where
  "first_occ s ps \<equiv> length (takeWhile (\<lambda>d. d \<noteq> s) ps)"

section \<open>Helper lemmas\<close>

subsection \<open>The sample pages\<close>

lemma parts_root_page: "parts (getFileLocation root_page) = []"
  by code_simp

lemma parts_explore_page: "parts (getFileLocation explore_page) = [''explore'']"
  by code_simp

lemma parts_explore_game_page:
  "parts (getFileLocation explore_game_page) = [''explore'', ''game'']"
  by code_simp

lemma parts_root_game_page: "parts (getFileLocation root_game_page) = [''game'']"
  by code_simp

lemma parts_game_explore_page:
  "parts (getFileLocation game_explore_page) = [''game'', ''explore'']"
  by code_simp


subsection \<open>The index loop\<close>

text \<open>
  The loop keeps an index once it is set, and sets it at the first segment with the name.
  The loop index never is \<open>-1\<close>, so a set index is not taken for an unset one.
\<close>

lemma find_indices_fst:
  "0 \<le> i \<Longrightarrow> fst (find_indices ds i ei gi) =
     (if ei \<noteq> -1 then ei
      else if ''explore'' \<in> set ds then i + int (first_occ ''explore'' ds) else -1)"
  by (induction ds arbitrary: i ei gi) auto

lemma find_indices_snd:
  "0 \<le> i \<Longrightarrow> snd (find_indices ds i ei gi) =
     (if gi \<noteq> -1 then gi
      else if ''game'' \<in> set ds then i + int (first_occ ''game'' ds) else -1)"
  by (induction ds arbitrary: i ei gi) auto

lemma exploreIndex_eq:
  "exploreIndex ps = (if ''explore'' \<in> set ps then int (first_occ ''explore'' ps) else -1)"
  by (simp add: exploreIndex_def find_indices_fst)

lemma gameIndex_eq:
  "gameIndex ps = (if ''game'' \<in> set ps then int (first_occ ''game'' ps) else -1)"
  by (simp add: gameIndex_def find_indices_snd)

lemma isInExplore_iff: "isInExplore ps \<longleftrightarrow> ''explore'' \<in> set ps"
  by (simp add: isInExplore_def exploreIndex_eq)

lemma isInExploreGame_iff:
  "isInExploreGame ps \<longleftrightarrow>
     ''explore'' \<in> set ps \<and> ''game'' \<in> set ps \<and>
     first_occ ''explore'' ps < first_occ ''game'' ps"
  by (auto simp add: isInExploreGame_def isInExplore_iff exploreIndex_eq gameIndex_eq)

lemma isInRootGame_iff: "isInRootGame ps \<longleftrightarrow> ''game'' \<in> set ps \<and> ''explore'' \<notin> set ps"
  by (simp add: isInRootGame_def isInExplore_iff gameIndex_eq)



subsection \<open>Absolute paths\<close>

lemma fixImagePath_absolute:
  "fixImagePath b (CHR ''/'' # q) =
     (if isInExploreGame (parts (getFileLocation b)) then ''../../images/''
      else if isInExplore (parts (getFileLocation b)) then ''images/''
      else if isInRootGame (parts (getFileLocation b)) then ''../explore/images/''
      else ''explore/images/'') @ replace_leading ''images/'' q"
  by (simp add: fixImagePath_def startsWith_def substring_def Let_def)


subsection \<open>Where the text \<open>images/images/\<close> can occur\<close>

text \<open>
  None of the four context prefixes contains the letter \<open>i\<close> before its \<open>images/\<close>, so
  an occurrence in the result starts at that \<open>images/\<close> or lies in what follows it.
\<close>

lemma sublist_after_images:
  "sublist ''images/images/'' (''images/'' @ r) \<longleftrightarrow>
     prefix ''images/'' r \<or> sublist ''images/images/'' r"
  by (simp add: sublist_Cons_right)

lemma sublist_after_up2:
  "sublist ''images/images/'' (''../../images/'' @ r) \<longleftrightarrow>
     prefix ''images/'' r \<or> sublist ''images/images/'' r"
  by (simp add: sublist_Cons_right)

lemma sublist_after_up_explore:
  "sublist ''images/images/'' (''../explore/images/'' @ r) \<longleftrightarrow>
     prefix ''images/'' r \<or> sublist ''images/images/'' r"
  by (simp add: sublist_Cons_right)

lemma sublist_after_explore:
  "sublist ''images/images/'' (''explore/images/'' @ r) \<longleftrightarrow>
     prefix ''images/'' r \<or> sublist ''images/images/'' r"
  by (simp add: sublist_Cons_right)

lemma sublist_after_slash:
  "sublist ''images/images/'' (CHR ''/'' # q) \<longleftrightarrow> sublist ''images/images/'' q"
  by (simp add: sublist_Cons_right)

lemma sublist_replace_leading:
  "prefix ''images/'' (replace_leading ''images/'' q) \<or>
     sublist ''images/images/'' (replace_leading ''images/'' q)
   \<longleftrightarrow> sublist ''images/images/'' q"
proof (cases "prefix ''images/'' q")
  case True
  then obtain r where q: "q = ''images/'' @ r"
    by (auto simp: prefix_def)
  have "replace_leading ''images/'' q = r"
    unfolding q replace_leading_def by simp
  then show ?thesis
    using sublist_after_images [of r] q by simp
next
  case False
  then have "replace_leading ''images/'' q = q"
    by (simp add: replace_leading_def)
  with False show ?thesis by simp
qed

subsection \<open>The scanning loop\<close>

lemma loadImage_skips: "data_loaded e = Some ''true'' \<Longrightarrow> loadImage b e = e"
  by (simp add: loadImage_def)

lemma loadImage_idem: "loadImage b (loadImage b e) = loadImage b e"
  by (simp add: loadImage_def Let_def split: option.splits)

lemma matches_loadImage: "matches_img_data_load (loadImage b e) = matches_img_data_load e"
  by (simp add: loadImage_def matches_img_data_load_def Let_def split: option.splits)

lemma loadAllImages_idem:
  "loadAllImages b (loadAllImages b document) = loadAllImages b document"
  by (simp add: loadAllImages_def loadImage_idem matches_loadImage)

lemma loadAllImages_funpow:
  "(loadAllImages b ^^ n) (loadAllImages b document) = loadAllImages b document"
  by (induction n) (simp_all add: loadAllImages_idem)

text \<open>
  The handler that the scan installs has \<open>fixImagePath\<close> of the declared path as its
  attempted path. A declared path that begins with \<open>/images/\<close> never is its own
  resolution and does not begin with \<open>http\<close>, so such a handler retries with the
  original path or assigns nothing; it does not reach the \<open>explore\<close> fallback.
\<close>

lemma installed_onerror_result:
  "run_onerror (ErrorHandler p (fixImagePath b p)) this =
     (if p \<noteq> fixImagePath b p \<and> \<not> startsWith p ''http''
      then (this\<lparr>src := Some p\<rparr>, [fixImagePath b p, p])
      else (this, [fixImagePath b p]))"
proof (cases "startsWith p ''/images/''")
  case True
  then obtain r where p: "p = CHR ''/'' # ''images/'' @ r"
    by (auto simp: startsWith_def prefix_def)
  have "\<not> startsWith (fixImagePath b p) ''/''"
    unfolding p fixImagePath_absolute by (simp add: startsWith_def)
  moreover have "startsWith p ''/''"
    by (simp add: p startsWith_def)
  ultimately have "p \<noteq> fixImagePath b p"
    by auto
  moreover have "\<not> startsWith p ''http''"
    by (simp add: p startsWith_def)
  ultimately show ?thesis
    by (simp add: run_onerror_def Let_def)
next
  case False
  then show ?thesis
    by (simp add: run_onerror_def Let_def)
qed

lemma fix_root_images_a: "fixImagePath root_page ''/images/a.png'' = ''explore/images/a.png''"
  by code_simp

lemma fix_explore_http_png: "fixImagePath explore_page ''http.png'' = ''images/http.png''"
  by code_simp

section \<open>Properties of fixImagePath\<close>

text \<open>
  Claim C1. For the input \<open>/images/a.png\<close>, \<open>fixImagePath\<close> returns
  \<open>explore/images/a.png\<close> when the segments of the document location contain neither
  \<open>explore\<close> nor \<open>game\<close>; \<open>images/a.png\<close> when they contain \<open>explore\<close> and the
  explore+game classification does not hold; \<open>../../images/a.png\<close> when they contain
  \<open>explore\<close> and a later \<open>game\<close>; and \<open>../explore/images/a.png\<close> when they contain
  \<open>game\<close> and not \<open>explore\<close>. A later \<open>game\<close> is what the explore+game classification
  asks for: the first \<open>game\<close> segment comes after the first \<open>explore\<close> segment.
\<close>

theorem fixImagePath_images_a_png_scenarios:
  assumes "parts (getFileLocation b) = ps"
  shows "(''explore'' \<notin> set ps \<and> ''game'' \<notin> set ps \<longrightarrow>
            fixImagePath b ''/images/a.png'' = ''explore/images/a.png'')
       \<and> (''explore'' \<in> set ps \<and>
            \<not> (''game'' \<in> set ps \<and> first_occ ''explore'' ps < first_occ ''game'' ps) \<longrightarrow>
            fixImagePath b ''/images/a.png'' = ''images/a.png'')
       \<and> (''explore'' \<in> set ps \<and> ''game'' \<in> set ps \<and>
            first_occ ''explore'' ps < first_occ ''game'' ps \<longrightarrow>
            fixImagePath b ''/images/a.png'' = ''../../images/a.png'')
       \<and> (''game'' \<in> set ps \<and> ''explore'' \<notin> set ps \<longrightarrow>
            fixImagePath b ''/images/a.png'' = ''../explore/images/a.png'')"
  using assms
  by (simp add: fixImagePath_absolute replace_leading_def isInExploreGame_iff isInExplore_iff
      isInRootGame_iff)

text \<open>
  The four scenarios on pages at \<open>/\<close>, \<open>/explore/\<close>, \<open>/explore/game/\<close> and \<open>/game/\<close>,
  and the explore result on a page at \<open>/game/explore/\<close>.
\<close>

theorem fixImagePath_images_a_png_scenarios_witness:
  "parts (getFileLocation root_page) = []
   \<and> fixImagePath root_page ''/images/a.png'' = ''explore/images/a.png''
   \<and> parts (getFileLocation explore_page) = [''explore'']
   \<and> fixImagePath explore_page ''/images/a.png'' = ''images/a.png''
   \<and> parts (getFileLocation game_explore_page) = [''game'', ''explore'']
   \<and> fixImagePath game_explore_page ''/images/a.png'' = ''images/a.png''
   \<and> parts (getFileLocation explore_game_page) = [''explore'', ''game'']
   \<and> fixImagePath explore_game_page ''/images/a.png'' = ''../../images/a.png''
   \<and> parts (getFileLocation root_game_page) = [''game'']
   \<and> fixImagePath root_game_page ''/images/a.png'' = ''../explore/images/a.png''"
  using fixImagePath_images_a_png_scenarios [OF parts_root_page]
    fixImagePath_images_a_png_scenarios [OF parts_explore_page]
    fixImagePath_images_a_png_scenarios [OF parts_game_explore_page]
    fixImagePath_images_a_png_scenarios [OF parts_explore_game_page]
    fixImagePath_images_a_png_scenarios [OF parts_root_game_page]
  by (simp add: parts_root_page parts_explore_page parts_game_explore_page
      parts_explore_game_page parts_root_game_page)

text \<open>
  Claim C2, as the code has it. A path that begins with the literal prefix \<open>http://\<close> or
  \<open>https://\<close>, in lower case, is returned unchanged, whatever the document location is.
  These two are the only scheme prefixes the function tests for.
\<close>

theorem fixImagePath_scheme_identity:
  assumes "startsWith p ''http://'' \<or> startsWith p ''https://''"
  shows "fixImagePath b p = p"
  using assms by (simp add: fixImagePath_def)

theorem fixImagePath_scheme_identity_witness:
  "(startsWith ''http://x/y.png'' ''http://'' \<or> startsWith ''http://x/y.png'' ''https://'')
   \<and> fixImagePath explore_game_page ''http://x/y.png'' = ''http://x/y.png''"
proof -
  have h: "startsWith ''http://x/y.png'' ''http://'' \<or> startsWith ''http://x/y.png'' ''https://''"
    by (simp add: startsWith_def)
  show ?thesis
    using h fixImagePath_scheme_identity [OF h, of explore_game_page] by simp
qed

text \<open>
  The claim as it was stated, for every network scheme prefix, fails: on a page in
  \<open>explore/\<close> the paths \<open>ftp://x/y.png\<close> and \<open>HTTPS://X/a.png\<close> begin with a scheme
  prefix and are resolved like bare relative paths, with \<open>images/\<close> put in front.
\<close>

theorem fixImagePath_other_scheme_counterexample:
  "startsWith ''ftp://x/y.png'' ''ftp://''
   \<and> fixImagePath explore_page ''ftp://x/y.png'' = ''images/ftp://x/y.png''
   \<and> fixImagePath explore_page ''ftp://x/y.png'' \<noteq> ''ftp://x/y.png''
   \<and> startsWith ''HTTPS://X/a.png'' ''HTTPS://''
   \<and> fixImagePath explore_page ''HTTPS://X/a.png'' = ''images/HTTPS://X/a.png''
   \<and> fixImagePath explore_page ''HTTPS://X/a.png'' \<noteq> ''HTTPS://X/a.png''"
  by code_simp

text \<open>
  Claim C3, as the code has it. For a path that begins with \<open>/\<close> and every document
  location, the result does not begin with \<open>/\<close>, and it contains \<open>images/images/\<close>
  exactly when the input path contains it: one leading \<open>images/\<close> is removed before the
  context prefix is put in front, and the prefix brings no second one.
\<close>

theorem fixImagePath_absolute_result:
  assumes "startsWith p ''/''"
  shows "\<not> startsWith (fixImagePath b p) ''/'' \<and>
         (sublist ''images/images/'' (fixImagePath b p) \<longleftrightarrow> sublist ''images/images/'' p)"
proof -
  from assms obtain q where p: "p = CHR ''/'' # q"
    by (cases p) (auto simp: startsWith_def)
  have 1: "\<not> startsWith (fixImagePath b p) ''/''"
    unfolding p fixImagePath_absolute by (simp add: startsWith_def)
  have 2: "sublist ''images/images/'' (fixImagePath b p) \<longleftrightarrow>
        prefix ''images/'' (replace_leading ''images/'' q) \<or>
        sublist ''images/images/'' (replace_leading ''images/'' q)"
    unfolding p fixImagePath_absolute
    using sublist_after_images sublist_after_up2 sublist_after_up_explore sublist_after_explore
    by presburger
  show ?thesis
    using 1 2 sublist_replace_leading [of q] sublist_after_slash [of q] p by simp
qed

theorem fixImagePath_absolute_result_witness:
  "startsWith ''/images/a.png'' ''/'' \<and>
   \<not> startsWith (fixImagePath root_game_page ''/images/a.png'') ''/'' \<and>
   \<not> sublist ''images/images/'' (fixImagePath root_game_page ''/images/a.png'')"
proof -
  have h: "startsWith ''/images/a.png'' ''/''"
    by (simp add: startsWith_def)
  have n: "\<not> sublist ''images/images/'' ''/images/a.png''"
    by code_simp
  show ?thesis
    using h n fixImagePath_absolute_result [OF h, of root_game_page] by simp
qed

text \<open>
  The claim as it was stated fails: on a page in \<open>explore/\<close> the absolute path
  \<open>/images/images/a.png\<close> becomes \<open>images/images/a.png\<close>.
\<close>

theorem fixImagePath_duplicated_images_counterexample:
  "startsWith ''/images/images/a.png'' ''/'' \<and>
   fixImagePath explore_page ''/images/images/a.png'' = ''images/images/a.png'' \<and>
   sublist ''images/images/'' (fixImagePath explore_page ''/images/images/a.png'')"
  by code_simp

text \<open>
  Claim C4, as the code has it. A bare relative path (no scheme prefix, not beginning
  with \<open>/\<close>, \<open>../\<close> or \<open>./\<close>) that begins with \<open>images/\<close> is returned unchanged in
  every context. Any other bare relative path gets \<open>../../images/\<close> in front in the
  explore+game context and \<open>images/\<close> in the explore context, and is returned unchanged
  in every other context.
\<close>

theorem fixImagePath_bare_relative:
  assumes "\<not> startsWith p ''http://''" and "\<not> startsWith p ''https://''"
    and "\<not> startsWith p ''/''" and "\<not> startsWith p ''../''" and "\<not> startsWith p ''./''"
    and "parts (getFileLocation b) = ps"
  shows "fixImagePath b p =
     (if startsWith p ''images/'' then p
      else if ''explore'' \<in> set ps \<and> ''game'' \<in> set ps \<and>
              first_occ ''explore'' ps < first_occ ''game'' ps
        then ''../../images/'' @ p
      else if ''explore'' \<in> set ps then ''images/'' @ p
      else p)"
  using assms
  by (simp add: fixImagePath_def Let_def isInExploreGame_iff isInExplore_iff)

theorem fixImagePath_bare_relative_witness:
  "(\<not> startsWith ''a.png'' ''http://'' \<and> \<not> startsWith ''a.png'' ''https://'' \<and>
    \<not> startsWith ''a.png'' ''/'' \<and> \<not> startsWith ''a.png'' ''../'' \<and>
    \<not> startsWith ''a.png'' ''./'')
   \<and> fixImagePath explore_page ''a.png'' = ''images/a.png''
   \<and> fixImagePath explore_game_page ''a.png'' = ''../../images/a.png''
   \<and> fixImagePath root_page ''a.png'' = ''a.png''
   \<and> fixImagePath root_game_page ''a.png'' = ''a.png''"
proof -
  have h: "\<not> startsWith ''a.png'' ''http://''" "\<not> startsWith ''a.png'' ''https://''"
    "\<not> startsWith ''a.png'' ''/''" "\<not> startsWith ''a.png'' ''../''"
    "\<not> startsWith ''a.png'' ''./''"
    by (simp_all add: startsWith_def)
  have i: "\<not> startsWith ''a.png'' ''images/''"
    by (simp add: startsWith_def)
  show ?thesis
    using h i fixImagePath_bare_relative [OF h parts_explore_page]
      fixImagePath_bare_relative [OF h parts_explore_game_page]
      fixImagePath_bare_relative [OF h parts_root_page]
      fixImagePath_bare_relative [OF h parts_root_game_page]
    by simp
qed

text \<open>
  The claim as it was stated fails: \<open>images/a.png\<close> is a bare relative path, the page is
  in the explore context, and the path comes back without the prefix \<open>images/\<close>.
\<close>

theorem fixImagePath_bare_images_counterexample:
  "\<not> startsWith ''images/a.png'' ''http://'' \<and> \<not> startsWith ''images/a.png'' ''https://'' \<and>
   \<not> startsWith ''images/a.png'' ''/'' \<and> \<not> startsWith ''images/a.png'' ''../'' \<and>
   \<not> startsWith ''images/a.png'' ''./'' \<and>
   isInExplore (parts (getFileLocation explore_page)) \<and>
   \<not> isInExploreGame (parts (getFileLocation explore_page)) \<and>
   fixImagePath explore_page ''images/a.png'' = ''images/a.png'' \<and>
   fixImagePath explore_page ''images/a.png'' \<noteq> ''images/'' @ ''images/a.png''"
  by code_simp

text \<open>
  Claim C5. The classification comes from the first-occurrence indices of the segments
  \<open>explore\<close> and \<open>game\<close>: each index is the position of the first segment with that
  name, or \<open>-1\<close>; the explore+game classification holds if and only if both names occur
  and the first \<open>game\<close> comes after the first \<open>explore\<close>; and a location with \<open>game\<close>
  before \<open>explore\<close> is plain explore, neither explore+game nor root game.
\<close>

theorem directory_classification:
  "exploreIndex ps = (if ''explore'' \<in> set ps then int (first_occ ''explore'' ps) else -1)
   \<and> gameIndex ps = (if ''game'' \<in> set ps then int (first_occ ''game'' ps) else -1)
   \<and> (isInExploreGame ps \<longleftrightarrow>
        ''explore'' \<in> set ps \<and> ''game'' \<in> set ps \<and>
        first_occ ''explore'' ps < first_occ ''game'' ps)
   \<and> (''explore'' \<in> set ps \<and> ''game'' \<in> set ps \<and>
        first_occ ''game'' ps < first_occ ''explore'' ps \<longrightarrow>
        isInExplore ps \<and> \<not> isInExploreGame ps \<and> \<not> isInRootGame ps)"
  by (simp add: exploreIndex_eq gameIndex_eq isInExploreGame_iff isInExplore_iff
      isInRootGame_iff)

theorem directory_classification_witness:
  "(''explore'' \<in> set [''game'', ''explore''] \<and> ''game'' \<in> set [''game'', ''explore''] \<and>
    first_occ ''game'' [''game'', ''explore''] < first_occ ''explore'' [''game'', ''explore''])
   \<and> exploreIndex [''game'', ''explore''] = 1
   \<and> gameIndex [''game'', ''explore''] = 0
   \<and> isInExplore [''game'', ''explore'']
   \<and> \<not> isInExploreGame [''game'', ''explore'']
   \<and> \<not> isInRootGame [''game'', ''explore'']"
  using directory_classification [of "[''game'', ''explore'']"] by simp

text \<open>
  Claim C9. \<open>fixImagePath\<close> is not idempotent: there are a path and two document
  locations such that resolving the result of the first resolution again, at the second
  location, changes it. The path \<open>a.png\<close>, resolved on a page at the root and then on a
  page in \<open>explore/\<close>, is one.
\<close>

theorem fixImagePath_not_idempotent:
  "\<exists>p b1 b2. fixImagePath b2 (fixImagePath b1 p) \<noteq> fixImagePath b1 p"
proof -
  have "fixImagePath explore_page (fixImagePath root_page ''a.png'') \<noteq>
        fixImagePath root_page ''a.png''"
    by code_simp
  then show ?thesis by blast
qed

section \<open>The two versions of fixImagePath\<close>




section \<open>Properties of loadAllImages and of the error handler\<close>

text \<open>
  Claim C7. On the first load failure the handler is to retry with the original declared
  path whenever that path differs from the attempted one, as its comment
  \<open>Try original path if different\<close> says. The handler tests
  \<open>!originalPath.startsWith('http')\<close> as well, and a path with the prefix \<open>http://\<close> or
  \<open>https://\<close> is its own resolution, so this test only ever stops retries for names such
  as \<open>http.png\<close>. On a page in \<open>explore/\<close> an image declared as \<open>http.png\<close> is attempted
  as \<open>images/http.png\<close>; the original path differs from the attempted one, and the error
  handler of the element assigns nothing.
\<close>

theorem onerror_http_png_not_retried:
  "loadAllImages explore_page [placeholder ''img'' ''http.png''] =
     [\<lparr>localName = ''img'', data_load = Some ''http.png'', data_loaded = Some ''true'',
       src = Some ''images/http.png'', style_display = ''block'',
       style_visibility = ''visible'', style_opacity = ''1'',
       onload = Some LoadHandler,
       onerror = Some (ErrorHandler ''http.png'' ''images/http.png'')\<rparr>]
   \<and> ''http.png'' \<noteq> ''images/http.png''
   \<and> run_onerror (ErrorHandler ''http.png'' ''images/http.png'')
        (hd (loadAllImages explore_page [placeholder ''img'' ''http.png'']))
      = (hd (loadAllImages explore_page [placeholder ''img'' ''http.png'']),
         [''images/http.png''])
   \<and> src (fst (run_onerror (ErrorHandler ''http.png'' ''images/http.png'')
        (hd (loadAllImages explore_page [placeholder ''img'' ''http.png''])))) \<noteq>
      Some ''http.png''"
proof -
  have run: "loadAllImages explore_page [placeholder ''img'' ''http.png''] =
     [\<lparr>localName = ''img'', data_load = Some ''http.png'', data_loaded = Some ''true'',
       src = Some ''images/http.png'', style_display = ''block'',
       style_visibility = ''visible'', style_opacity = ''1'',
       onload = Some LoadHandler,
       onerror = Some (ErrorHandler ''http.png'' ''images/http.png'')\<rparr>]"
    by (simp add: loadAllImages_def matches_img_data_load_def loadImage_def placeholder_def
        fix_explore_http_png Let_def)
  show ?thesis
    unfolding run by (simp add: run_onerror_def startsWith_def Let_def)
qed

text \<open>
  Claim C8, as the code has it. After one run of \<open>loadAllImages\<close>, every \<open>img\<close> element
  of the document that carries the declared-path attribute (the selector
  \<open>img[data-load]\<close> matches it), has a non-empty declared path and was not flagged
  \<open>true\<close> as loaded has its source equal to \<open>fixImagePath\<close> of the declared path, its
  display, visibility and opacity set to \<open>block\<close>, \<open>visible\<close> and \<open>1\<close>, and its loaded
  flag set to \<open>true\<close>. Elements are addressed by their position in the document, which
  a run does not change.
\<close>

theorem loadAllImages_activates:
  assumes "i < length document"
    and "matches_img_data_load (document ! i)"
    and "data_load (document ! i) = Some p" and "p \<noteq> []"
    and "data_loaded (document ! i) \<noteq> Some ''true''"
  shows "length (loadAllImages b document) = length document
     \<and> src (loadAllImages b document ! i) = Some (fixImagePath b p)
     \<and> style_display (loadAllImages b document ! i) = ''block''
     \<and> style_visibility (loadAllImages b document ! i) = ''visible''
     \<and> style_opacity (loadAllImages b document ! i) = ''1''
     \<and> data_loaded (loadAllImages b document ! i) = Some ''true''"
  using assms by (simp add: loadAllImages_def loadImage_def Let_def)

theorem loadAllImages_activates_witness:
  "src (loadAllImages root_page
          [placeholder ''img'' ''x.png'', placeholder ''img'' ''/images/a.png''] ! 1)
     = Some ''explore/images/a.png''
   \<and> style_display (loadAllImages root_page
          [placeholder ''img'' ''x.png'', placeholder ''img'' ''/images/a.png''] ! 1) = ''block''
   \<and> style_visibility (loadAllImages root_page
          [placeholder ''img'' ''x.png'', placeholder ''img'' ''/images/a.png''] ! 1) = ''visible''
   \<and> style_opacity (loadAllImages root_page
          [placeholder ''img'' ''x.png'', placeholder ''img'' ''/images/a.png''] ! 1) = ''1''
   \<and> data_loaded (loadAllImages root_page
          [placeholder ''img'' ''x.png'', placeholder ''img'' ''/images/a.png''] ! 1)
     = Some ''true''"
proof -
  let ?d = "[placeholder ''img'' ''x.png'', placeholder ''img'' ''/images/a.png'']"
  have h: "1 < length ?d" "matches_img_data_load (?d ! 1)"
    "data_load (?d ! 1) = Some ''/images/a.png''" "''/images/a.png'' \<noteq> []"
    "data_loaded (?d ! 1) \<noteq> Some ''true''"
    by (simp_all add: matches_img_data_load_def placeholder_def)
  show ?thesis
    using loadAllImages_activates [OF h, of root_page]
    by (simp add: fix_root_images_a)
qed

text \<open>
  The claim as it was stated, for every element that carries the attribute, fails: a
  \<open>div\<close> with a non-empty \<open>data-load\<close> and no loaded flag is not selected, and a run
  leaves it without a source, with its styles and without the flag.
\<close>

theorem loadAllImages_div_counterexample:
  "data_load (placeholder ''div'' ''a.png'') = Some ''a.png''
   \<and> ''a.png'' \<noteq> []
   \<and> data_loaded (placeholder ''div'' ''a.png'') \<noteq> Some ''true''
   \<and> loadAllImages explore_page [placeholder ''div'' ''a.png''] = [placeholder ''div'' ''a.png'']
   \<and> src (loadAllImages explore_page [placeholder ''div'' ''a.png''] ! 0) \<noteq>
       Some (fixImagePath explore_page ''a.png'')
   \<and> style_display (loadAllImages explore_page [placeholder ''div'' ''a.png''] ! 0) \<noteq> ''block''
   \<and> data_loaded (loadAllImages explore_page [placeholder ''div'' ''a.png''] ! 0) \<noteq>
       Some ''true''"
  by (simp add: loadAllImages_def matches_img_data_load_def placeholder_def)

text \<open>
  Claim C10. An element whose loaded flag is \<open>true\<close> is skipped, so a run on the document
  that an earlier run with the same location produced changes nothing: every element
  keeps its source, its styles and its loaded flag (and its handlers). The same holds for
  the three delayed runs after it.
\<close>

theorem loadAllImages_rerun_unchanged:
  "(data_loaded e = Some ''true'' \<longrightarrow> loadImage b e = e)
   \<and> loadAllImages b (loadAllImages b document) = loadAllImages b document
   \<and> (loadAllImages b ^^ 3) (loadAllImages b document) = loadAllImages b document"
  using loadImage_skips [of e b] loadAllImages_idem [of b document]
    loadAllImages_funpow [where n = 3 and b = b and document = document]
  by blast

theorem loadAllImages_rerun_unchanged_witness:
  "data_loaded (loadImage explore_page (placeholder ''img'' ''a.png'')) = Some ''true''
   \<and> loadImage explore_page (loadImage explore_page (placeholder ''img'' ''a.png'')) =
       loadImage explore_page (placeholder ''img'' ''a.png'')
   \<and> loadAllImages explore_page (loadAllImages explore_page [placeholder ''img'' ''a.png'']) =
       loadAllImages explore_page [placeholder ''img'' ''a.png'']"
proof -
  have h: "data_loaded (loadImage explore_page (placeholder ''img'' ''a.png'')) = Some ''true''"
    by (simp add: loadImage_def placeholder_def Let_def)
  show ?thesis
    using h
      loadAllImages_rerun_unchanged [of "loadImage explore_page (placeholder ''img'' ''a.png'')"
        explore_page "[placeholder ''img'' ''a.png'']"]
    by simp
qed

end
